theory Spec2Isabelle
  imports Complex_Main "HOL-Library.Sublist"
begin

section \<open>Python values\<close>

text \<open>
  The dashboard handles two kinds of Python data: the request payload it builds and
  whatever \<^verbatim>\<open>response.json()\<close> hands back. Both are JSON-shaped Python values. A float is
  kept as the rational it denotes (every finite double is one), with the two infinities
  and NaN apart, since Python's json module reads them too; only the zero test and the
  comparison with the integers 0, 1 and 2 are ever applied to it, and Python performs both
  exactly. A dict is an association list in insertion order, looked up from the front.
\<close>

datatype pyfloat = Finite rat | Infinity bool | NaN

datatype pyval =
    PyNone
  | PyBool bool
  | PyInt int
  | PyFloat pyfloat
  | PyStr string
  | PyList "pyval list"
  | PyDict "(string \<times> pyval) list"

text \<open>Python's truth value testing, as used by \<^verbatim>\<open>if prediction_result:\<close>.\<close>

definition truthy :: "pyval \<Rightarrow> bool" where
  "truthy v =
     (case v of
        PyNone \<Rightarrow> False
      | PyBool b \<Rightarrow> b
      | PyInt n \<Rightarrow> n \<noteq> 0
      | PyFloat x \<Rightarrow> x \<noteq> Finite 0
      | PyStr s \<Rightarrow> s \<noteq> []
      | PyList xs \<Rightarrow> xs \<noteq> []
      | PyDict kvs \<Rightarrow> kvs \<noteq> [])"

text \<open>
  Python's \<^verbatim>\<open>v == n\<close> for an integer literal \<open>n\<close>: numbers compare by value (a bool is
  the integer 0 or 1), everything else is unequal to an integer.
\<close>

definition py_eq_int :: "pyval \<Rightarrow> int \<Rightarrow> bool" where
  "py_eq_int v n =
     (case v of
        PyBool b \<Rightarrow> (if b then 1 else 0) = n
      | PyInt m \<Rightarrow> m = n
      | PyFloat x \<Rightarrow> x = Finite (of_int n)
      | _ \<Rightarrow> False)"

definition type_name :: "pyval \<Rightarrow> string" where
  "type_name v =
     (case v of
        PyNone \<Rightarrow> ''NoneType''
      | PyBool _ \<Rightarrow> ''bool''
      | PyInt _ \<Rightarrow> ''int''
      | PyFloat _ \<Rightarrow> ''float''
      | PyStr _ \<Rightarrow> ''str''
      | PyList _ \<Rightarrow> ''list''
      | PyDict _ \<Rightarrow> ''dict'')"

subsection \<open>Exceptions\<close>

text \<open>
  The two \<^verbatim>\<open>except\<close> clauses of \<^verbatim>\<open>get_prediction\<close> tell exceptions apart by class only:
  \<^verbatim>\<open>requests.exceptions.ConnectionError\<close> (with its subclasses), any other subclass of
  \<^verbatim>\<open>Exception\<close>, and the exceptions that derive from \<^verbatim>\<open>BaseException\<close> without deriving
  from \<^verbatim>\<open>Exception\<close> (KeyboardInterrupt, SystemExit, GeneratorExit and the like). The
  decode error of \<^verbatim>\<open>response.json()\<close> and the AttributeError of a \<^verbatim>\<open>.get\<close> on a value
  that is not a dict are raised by the code under study, so they have classes of their
  own; both derive from \<^verbatim>\<open>Exception\<close> and neither is a ConnectionError. An exception
  carries the text that \<^verbatim>\<open>str(e)\<close> yields.
\<close>

datatype exc_class =
    ConnectionError
  | JSONDecodeError
  | AttributeError
  | OtherException
  | SystemExiting

datatype py_exception = PyExc (exc_class: exc_class) (exc_str: string)

definition is_ConnectionError :: "py_exception \<Rightarrow> bool" where
  "is_ConnectionError e = (exc_class e = ConnectionError)"

definition is_Exception :: "py_exception \<Rightarrow> bool" where
  "is_Exception e = (exc_class e \<noteq> SystemExiting)"

text \<open>
  \<^verbatim>\<open>v.get(k, d)\<close>: the dict method, and an AttributeError on any other JSON-shaped
  value, none of which has a \<^verbatim>\<open>get\<close> attribute.
\<close>

definition py_get :: "pyval \<Rightarrow> string \<Rightarrow> pyval \<Rightarrow> py_exception + pyval" where
  \<open>py_get v k d =
     (case v of
        PyDict kvs \<Rightarrow> Inr (case map_of kvs k of None \<Rightarrow> d | Some x \<Rightarrow> x)
      | _ \<Rightarrow> Inl (PyExc AttributeError
                 ([CHR 0x27] @ type_name v @ [CHR 0x27] @ '' object has no attribute ''
                  @ [CHR 0x27] @ ''get'' @ [CHR 0x27])))\<close>

subsection \<open>Formatting\<close>

text \<open>Decimal text of an integer, as an f-string renders \<^verbatim>\<open>response.status_code\<close>.\<close>

definition digit_char :: "nat \<Rightarrow> char" where
  "digit_char d = ''0123456789'' ! d"

fun str_nat :: "nat \<Rightarrow> string" where
  "str_nat n = (if n < 10 then [digit_char n] else str_nat (n div 10) @ [digit_char (n mod 10)])"

declare str_nat.simps [simp del]

definition str_int :: "int \<Rightarrow> string" where
  "str_int i = (if i < 0 then ''-'' @ str_nat (nat (- i)) else str_nat (nat i))"

text \<open>
  A replacement field \<^verbatim>\<open>{v}\<close> of an f-string: a \<^verbatim>\<open>str\<close> is inserted as it is. What Python
  prints for the other values (the repr of floats, lists and dicts) is not needed by any
  property below, so it is a parameter \<open>fmt\<close> of the model.
\<close>

definition py_format :: "(pyval \<Rightarrow> string) \<Rightarrow> pyval \<Rightarrow> string" where
  "py_format fmt v = (case v of PyStr s \<Rightarrow> s | _ \<Rightarrow> fmt v)"

section \<open>Configuration\<close>

definition API_URL :: string where
  "API_URL = ''http://127.0.0.1:8000/predict_segment/''"

definition JOB_OPTIONS :: "(int \<times> string) list" where
  "JOB_OPTIONS =
     [(0, ''Unskilled-Non-Resident''), (1, ''Unskilled-Resident''),
      (2, ''Skilled''), (3, ''Highly Skilled'')]"

section \<open>The outside world\<close>

text \<open>
  A response is what the code reads of it: the status code and the outcome of
  \<^verbatim>\<open>response.json()\<close>, which is the parsed body or a decode error with its message.
\<close>

record response =
  status_code :: int
  body_json :: "string + pyval"

definition response_json :: "response \<Rightarrow> py_exception + pyval" where
  "response_json r =
     (case body_json r of
        Inl msg \<Rightarrow> Inl (PyExc JSONDecodeError msg)
      | Inr v \<Rightarrow> Inr v)"

text \<open>
  The transport is a black box: given the calls made so far and the present call it
  raises or returns a response. \<^verbatim>\<open>requests.post\<close> consults it once and records the call.
\<close>

type_synonym request = "string \<times> (string \<times> pyval) list"

type_synonym network = "request list \<Rightarrow> request \<Rightarrow> py_exception + response"

definition requests_post ::
  "network \<Rightarrow> string \<Rightarrow> (string \<times> pyval) list \<Rightarrow> request list
     \<Rightarrow> (py_exception + response) \<times> request list" where
  "requests_post net url data calls = (net calls (url, data), calls @ [(url, data)])"

text \<open>What the page shows: the calls \<^verbatim>\<open>st.error\<close>, \<^verbatim>\<open>st.warning\<close>, \<^verbatim>\<open>st.markdown\<close>, \<^verbatim>\<open>st.success\<close>.\<close>

datatype ui_event =
    St_error string
  | St_warning string
  | St_markdown string
  | St_success string

section \<open>get_prediction\<close>

text \<open>
  The body of the \<^verbatim>\<open>try\<close> block, given the outcome of the POST. The result is the value
  returned or the exception raised, with the messages shown on the way. An exception can
  only arise before the first message, so a raising run has shown nothing.
\<close>

definition try_block ::
  "(pyval \<Rightarrow> string) \<Rightarrow> py_exception + response \<Rightarrow> (py_exception + pyval) \<times> ui_event list" where
  "try_block fmt outcome =
     (case outcome of
        Inl e \<Rightarrow> (Inl e, [])
      | Inr response \<Rightarrow>
          if status_code response = 200 then (response_json response, [])
          else
            (case response_json response of
               Inl e \<Rightarrow> (Inl e, [])
             | Inr body \<Rightarrow>
                 (case py_get body ''detail'' (PyStr ''Unknown API Error'') of
                    Inl e \<Rightarrow> (Inl e, [])
                  | Inr error_detail \<Rightarrow>
                      (Inr PyNone,
                       [St_error (''API Error ('' @ str_int (status_code response) @ ''): ''
                                  @ py_format fmt error_detail),
                        St_warning ''Ensure your Project 2 FastAPI server is running in a separate terminal.''])))
     )"

record client_run =
  returned :: "py_exception + pyval"
  shown :: "ui_event list"
  sent :: "request list"

text \<open>
  \<^verbatim>\<open>get_prediction(data)\<close>: one POST, then the \<^verbatim>\<open>try\<close> block under its two handlers, in the
  order of the source. \<open>returned\<close> is \<open>Inr\<close> of the value returned (\<open>PyNone\<close> for
  \<^verbatim>\<open>return None\<close>) or \<open>Inl\<close> of an exception that leaves the function.
\<close>

definition get_prediction ::
  "(pyval \<Rightarrow> string) \<Rightarrow> network \<Rightarrow> (string \<times> pyval) list \<Rightarrow> request list \<Rightarrow> client_run" where
  "get_prediction fmt net data calls =
     (case requests_post net API_URL data calls of
        (outcome, calls') \<Rightarrow>
          (case try_block fmt outcome of
             (Inr v, msgs) \<Rightarrow> \<lparr>returned = Inr v, shown = msgs, sent = calls'\<rparr>
           | (Inl e, msgs) \<Rightarrow>
               if is_ConnectionError e then
                 \<lparr>returned = Inr PyNone,
                  shown = msgs @
                    [St_error ''Connection Error: Could not connect to the Prediction API.'',
                     St_warning (''Please ensure your Project 2 FastAPI server is running at ''
                                 @ API_URL @ ''.'')],
                  sent = calls'\<rparr>
               else if is_Exception e then
                 \<lparr>returned = Inr PyNone,
                  shown = msgs @ [St_error (''An unexpected error occurred: '' @ exc_str e)],
                  sent = calls'\<rparr>
               else \<lparr>returned = Inl e, shown = msgs, sent = calls'\<rparr>))"

section \<open>The form and the predict button\<close>

text \<open>
  The values the nine widgets hold. The three number inputs are declared with integer
  bounds and defaults and therefore yield Python ints; the job select box yields a key of
  \<open>JOB_OPTIONS\<close>; the others yield one of their option strings.
\<close>

record applicant_input =
  age :: int
  credit_amount :: int
  duration :: int
  sex :: string
  job_index :: int
  housing :: string
  saving_accounts :: string
  checking_account :: string
  purpose :: string

definition SEX_OPTIONS :: "string list" where
  "SEX_OPTIONS = [''male'', ''female'']"

definition HOUSING_OPTIONS :: "string list" where
  "HOUSING_OPTIONS = [''rent'', ''own'', ''free'']"

definition SAVING_OPTIONS :: "string list" where
  "SAVING_OPTIONS = [''little'', ''moderate'', ''quite rich'', ''rich'']"

definition CHECKING_OPTIONS :: "string list" where
  "CHECKING_OPTIONS = [''little'', ''moderate'', ''rich'', ''no checking'']"

definition PURPOSE_OPTIONS :: "string list" where
  "PURPOSE_OPTIONS =
     [''car'', ''furniture/equipment'', ''radio/TV'', ''domestic appliances'', ''repairs'',
      ''education'', ''business'', ''vacation/others'']"

text \<open>The bounds of the number inputs; the credit amount has a minimum only.\<close>

definition age_accepted :: "int \<Rightarrow> bool" where
  "age_accepted v = (18 \<le> v \<and> v \<le> 100)"

definition credit_amount_accepted :: "int \<Rightarrow> bool" where
  "credit_amount_accepted v = (500 \<le> v)"

definition duration_accepted :: "int \<Rightarrow> bool" where
  "duration_accepted v = (6 \<le> v \<and> v \<le> 72)"

definition valid_input :: "applicant_input \<Rightarrow> bool" where
  "valid_input f =
     (age_accepted (age f) \<and> credit_amount_accepted (credit_amount f)
      \<and> duration_accepted (duration f)
      \<and> sex f \<in> set SEX_OPTIONS
      \<and> job_index f \<in> set (map fst JOB_OPTIONS)
      \<and> housing f \<in> set HOUSING_OPTIONS
      \<and> saving_accounts f \<in> set SAVING_OPTIONS
      \<and> checking_account f \<in> set CHECKING_OPTIONS
      \<and> purpose f \<in> set PURPOSE_OPTIONS)"

text \<open>The dict literal of the handler; \<^verbatim>\<open>int(x)\<close> of a Python int is that int.\<close>

definition input_data :: "applicant_input \<Rightarrow> (string \<times> pyval) list" where
  "input_data f =
     [(''Age'', PyInt (age f)),
      (''Duration'', PyInt (duration f)),
      (''Credit_amount'', PyInt (credit_amount f)),
      (''Job'', PyInt (job_index f)),
      (''Sex'', PyStr (sex f)),
      (''Housing'', PyStr (housing f)),
      (''Saving_accounts'', PyStr (saving_accounts f)),
      (''Checking_account'', PyStr (checking_account f)),
      (''Purpose'', PyStr (purpose f))]"

text \<open>The if/elif chain on \<^verbatim>\<open>segment_id\<close>: the pair (color, label).\<close>

definition segment_style :: "pyval \<Rightarrow> string \<times> string" where
  "segment_style segment_id =
     (if py_eq_int segment_id 0 then (''var(--low-risk)'', ''Low Risk Segment'')
      else if py_eq_int segment_id 1 then (''var(--medium-risk)'', ''Medium Risk Segment'')
      else if py_eq_int segment_id 2 then (''var(--high-risk)'', ''High Risk Segment'')
      else (''var(--border-color)'', ''Prediction Error''))"

text \<open>The f-string passed to \<^verbatim>\<open>st.markdown\<close>, line breaks and indentation included.\<close>

definition risk_card :: "string \<Rightarrow> string \<Rightarrow> string \<Rightarrow> string" where
  \<open>risk_card color label segment_name =
     [CHR 0x0A] @ ''        <div class="risk-card" style="background-color: '' @ color @ '';">''
     @ [CHR 0x0A] @ ''            <div class="risk-label">'' @ label @ ''</div>''
     @ [CHR 0x0A] @ ''            <div class="risk-segment">Predicted Segment: '' @ segment_name
     @ ''</div>''
     @ [CHR 0x0A] @ ''        </div>''
     @ [CHR 0x0A] @ ''        ''\<close>

record script_run =
  raised :: "py_exception option"
  displayed :: "ui_event list"
  requests :: "request list"

text \<open>
  The body of \<^verbatim>\<open>if st.button("Predict Risk Segment")\<close>. \<open>raised\<close> holds an exception that
  leaves the script: one that \<^verbatim>\<open>get_prediction\<close> let through, or the AttributeError of
  \<^verbatim>\<open>prediction_result.get\<close> on a truthy value that is not a dict.
\<close>

definition predict_button ::
  "(pyval \<Rightarrow> string) \<Rightarrow> network \<Rightarrow> applicant_input \<Rightarrow> request list \<Rightarrow> script_run" where
  "predict_button fmt net f calls =
     (let run = get_prediction fmt net (input_data f) calls in
      case returned run of
        Inl e \<Rightarrow> \<lparr>raised = Some e, displayed = shown run, requests = sent run\<rparr>
      | Inr prediction_result \<Rightarrow>
          if truthy prediction_result then
            (case py_get prediction_result ''risk_segment_id'' (PyInt 99) of
               Inl e \<Rightarrow> \<lparr>raised = Some e, displayed = shown run, requests = sent run\<rparr>
             | Inr segment_id \<Rightarrow>
                 (case py_get prediction_result ''risk_segment_name'' (PyStr ''Unknown Segment'') of
                    Inl e \<Rightarrow> \<lparr>raised = Some e, displayed = shown run, requests = sent run\<rparr>
                  | Inr segment_name \<Rightarrow>
                      (case segment_style segment_id of
                         (color, label) \<Rightarrow>
                           \<lparr>raised = None,
                            displayed = shown run @
                              [St_markdown (risk_card color label (py_format fmt segment_name)),
                               St_success ''Prediction complete! Result received from FastAPI API.''],
                            requests = sent run\<rparr>)))
          else \<lparr>raised = None, displayed = shown run, requests = sent run\<rparr>)"

text \<open>One run of the script: the handler runs only when the button was pressed.\<close>

definition script ::
  "(pyval \<Rightarrow> string) \<Rightarrow> network \<Rightarrow> applicant_input \<Rightarrow> bool \<Rightarrow> request list \<Rightarrow> script_run" where
  "script fmt net f pressed calls =
     (if pressed then predict_button fmt net f calls
      else \<lparr>raised = None, displayed = [], requests = calls\<rparr>)"

subsection \<open>Reading a page\<close>

definition error_messages :: "ui_event list \<Rightarrow> string list" where
  "error_messages evs = concat (map (\<lambda>ev. case ev of St_error m \<Rightarrow> [m] | _ \<Rightarrow> []) evs)"

definition warning_messages :: "ui_event list \<Rightarrow> string list" where
  "warning_messages evs = concat (map (\<lambda>ev. case ev of St_warning m \<Rightarrow> [m] | _ \<Rightarrow> []) evs)"

definition cards :: "ui_event list \<Rightarrow> string list" where
  "cards evs = concat (map (\<lambda>ev. case ev of St_markdown m \<Rightarrow> [m] | _ \<Rightarrow> []) evs)"

definition names_endpoint :: "string \<Rightarrow> bool" where
  "names_endpoint m = sublist API_URL m"

section \<open>Sample runs\<close>

text \<open>
  Concrete surroundings on which the properties below are exercised: a formatter for
  the values that are not strings (right on None, bools and ints, which is all the
  samples could ever format), a form at its default values, and transports with one fixed
  behaviour each.
\<close>

definition sample_fmt :: "pyval \<Rightarrow> string" where
  "sample_fmt v =
     (case v of
        PyNone \<Rightarrow> ''None''
      | PyBool b \<Rightarrow> (if b then ''True'' else ''False'')
      | PyInt n \<Rightarrow> str_int n
      | _ \<Rightarrow> ''...'')"

definition default_form :: applicant_input where
  "default_form =
     \<lparr>age = 35, credit_amount = 6500, duration = 24, sex = ''male'', job_index = 0,
      housing = ''own'', saving_accounts = ''little'', checking_account = ''moderate'',
      purpose = ''car''\<rparr>"

definition youngest_form :: applicant_input where
  "youngest_form = default_form\<lparr>age := 18\<rparr>"

definition oldest_form :: applicant_input where
  "oldest_form = default_form\<lparr>age := 100\<rparr>"

definition replying :: "int \<Rightarrow> string + pyval \<Rightarrow> network" where
  "replying code body calls req = Inr \<lparr>status_code = code, body_json = body\<rparr>"

definition raising :: "exc_class \<Rightarrow> string \<Rightarrow> network" where
  "raising cls msg calls req = Inl (PyExc cls msg)"

definition prime_borrowers :: pyval where
  "prime_borrowers =
     PyDict [(''risk_segment_id'', PyInt 0), (''risk_segment_name'', PyStr ''Prime Borrowers'')]"

definition decode_failure :: string where
  "decode_failure = ''Expecting value: line 1 column 1 (char 0)''"

definition boolean_identifier :: pyval where
  "boolean_identifier =
     PyDict [(''risk_segment_id'', PyBool True), (''risk_segment_name'', PyStr ''Near Prime'')]"

definition list_body :: pyval where
  "list_body = PyList [PyInt 1, PyInt 2]"

section \<open>Facts about the client and the handler\<close>

lemma get_prediction_sent: "sent (get_prediction fmt net data calls) = calls @ [(API_URL, data)]"
  by (simp add: get_prediction_def requests_post_def split: prod.splits sum.splits)

lemma get_prediction_ok:
  assumes "net calls (API_URL, data) = Inr r" "status_code r = 200" "body_json r = Inr v"
  shows "get_prediction fmt net data calls =
           \<lparr>returned = Inr v, shown = [], sent = calls @ [(API_URL, data)]\<rparr>"
  using assms
  by (simp add: get_prediction_def requests_post_def try_block_def response_json_def)

lemma get_prediction_undecodable:
  assumes "net calls (API_URL, data) = Inr r" "body_json r = Inl msg"
  shows "get_prediction fmt net data calls =
           \<lparr>returned = Inr PyNone,
            shown = [St_error (''An unexpected error occurred: '' @ msg)],
            sent = calls @ [(API_URL, data)]\<rparr>"
  using assms
  by (simp add: get_prediction_def requests_post_def try_block_def response_json_def
      is_ConnectionError_def is_Exception_def)

lemma get_prediction_api_error:
  assumes "net calls (API_URL, data) = Inr r" "status_code r \<noteq> 200"
    "body_json r = Inr (PyDict kvs)"
  shows "get_prediction fmt net data calls =
           \<lparr>returned = Inr PyNone,
            shown = [St_error (''API Error ('' @ str_int (status_code r) @ ''): ''
                       @ py_format fmt (case map_of kvs ''detail'' of
                                          None \<Rightarrow> PyStr ''Unknown API Error'' | Some d \<Rightarrow> d)),
                     St_warning ''Ensure your Project 2 FastAPI server is running in a separate terminal.''],
            sent = calls @ [(API_URL, data)]\<rparr>"
  using assms
  by (simp add: get_prediction_def requests_post_def try_block_def response_json_def py_get_def)

lemma get_prediction_not_dict:
  assumes "net calls (API_URL, data) = Inr r" "status_code r \<noteq> 200"
    "body_json r = Inr v" "\<forall>kvs. v \<noteq> PyDict kvs"
  shows "get_prediction fmt net data calls =
           \<lparr>returned = Inr PyNone,
            shown = [St_error (''An unexpected error occurred: '' @ [CHR 0x27] @ type_name v
                       @ [CHR 0x27] @ '' object has no attribute '' @ [CHR 0x27] @ ''get''
                       @ [CHR 0x27])],
            sent = calls @ [(API_URL, data)]\<rparr>"
  using assms
  by (cases v)
     (simp_all add: get_prediction_def requests_post_def try_block_def response_json_def
        py_get_def is_ConnectionError_def is_Exception_def)

lemma get_prediction_raise:
  assumes "net calls (API_URL, data) = Inl e"
  shows "get_prediction fmt net data calls =
           (if is_ConnectionError e then
              \<lparr>returned = Inr PyNone,
               shown = [St_error ''Connection Error: Could not connect to the Prediction API.'',
                        St_warning (''Please ensure your Project 2 FastAPI server is running at ''
                                    @ API_URL @ ''.'')],
               sent = calls @ [(API_URL, data)]\<rparr>
            else if is_Exception e then
              \<lparr>returned = Inr PyNone,
               shown = [St_error (''An unexpected error occurred: '' @ exc_str e)],
               sent = calls @ [(API_URL, data)]\<rparr>
            else \<lparr>returned = Inl e, shown = [], sent = calls @ [(API_URL, data)]\<rparr>)"
  using assms
  by (simp add: get_prediction_def requests_post_def try_block_def)

lemma predict_button_none:
  assumes "get_prediction fmt net (input_data f) calls = \<lparr>returned = Inr v, shown = msgs, sent = s\<rparr>"
    "\<not> truthy v"
  shows "predict_button fmt net f calls = \<lparr>raised = None, displayed = msgs, requests = s\<rparr>"
  using assms by (simp add: predict_button_def Let_def)

lemma predict_button_dict:
  assumes "get_prediction fmt net (input_data f) calls =
             \<lparr>returned = Inr (PyDict kvs), shown = msgs, sent = s\<rparr>"
    "kvs \<noteq> []"
  shows "predict_button fmt net f calls =
           \<lparr>raised = None,
            displayed = msgs @
              [St_markdown
                 (risk_card
                    (fst (segment_style (case map_of kvs ''risk_segment_id'' of
                                           None \<Rightarrow> PyInt 99 | Some x \<Rightarrow> x)))
                    (snd (segment_style (case map_of kvs ''risk_segment_id'' of
                                           None \<Rightarrow> PyInt 99 | Some x \<Rightarrow> x)))
                    (py_format fmt (case map_of kvs ''risk_segment_name'' of
                                      None \<Rightarrow> PyStr ''Unknown Segment'' | Some x \<Rightarrow> x))),
               St_success ''Prediction complete! Result received from FastAPI API.''],
            requests = s\<rparr>"
  using assms
  by (simp add: predict_button_def Let_def truthy_def py_get_def split: prod.splits)

lemma predict_button_requests:
  "requests (predict_button fmt net f calls) = calls @ [(API_URL, input_data f)]"
  using get_prediction_sent [of fmt net "input_data f" calls]
  by (simp add: predict_button_def Let_def split: sum.splits prod.splits)

lemma segment_style_int:
  "segment_style (PyInt n) =
     (if n = 0 then (''var(--low-risk)'', ''Low Risk Segment'')
      else if n = 1 then (''var(--medium-risk)'', ''Medium Risk Segment'')
      else if n = 2 then (''var(--high-risk)'', ''High Risk Segment'')
      else (''var(--border-color)'', ''Prediction Error''))"
  by (simp add: segment_style_def py_eq_int_def)

lemma cards_simps:
  "cards [] = []"
  "cards (St_markdown m # evs) = m # cards evs"
  "cards (St_error m # evs) = cards evs"
  "cards (St_warning m # evs) = cards evs"
  "cards (St_success m # evs) = cards evs"
  by (simp_all add: cards_def)

lemma error_messages_simps:
  "error_messages [] = []"
  "error_messages (St_error m # evs) = m # error_messages evs"
  "error_messages (St_markdown m # evs) = error_messages evs"
  "error_messages (St_warning m # evs) = error_messages evs"
  "error_messages (St_success m # evs) = error_messages evs"
  by (simp_all add: error_messages_def)

lemma risk_card_shows:
  \<open>sublist (''<div class="risk-card" style="background-color: '' @ color @ '';">'')
      (risk_card color label segment_name)\<close>
  \<open>sublist (''<div class="risk-label">'' @ label @ ''</div>'')
      (risk_card color label segment_name)\<close>
  \<open>sublist (''<div class="risk-segment">Predicted Segment: '' @ segment_name @ ''</div>'')
      (risk_card color label segment_name)\<close>
proof -
  have first: \<open>risk_card color label segment_name =
      ([CHR 0x0A] @ ''        '')
      @ (''<div class="risk-card" style="background-color: '' @ color @ '';">'')
      @ ([CHR 0x0A] @ ''            <div class="risk-label">'' @ label @ ''</div>''
         @ [CHR 0x0A] @ ''            <div class="risk-segment">Predicted Segment: ''
         @ segment_name @ ''</div>'' @ [CHR 0x0A] @ ''        </div>''
         @ [CHR 0x0A] @ ''        '')\<close>
    by (simp add: risk_card_def)
  show \<open>sublist (''<div class="risk-card" style="background-color: '' @ color @ '';">'')
      (risk_card color label segment_name)\<close>
    unfolding first by (rule sublist_appendI)
  have second: \<open>risk_card color label segment_name =
      ([CHR 0x0A] @ ''        <div class="risk-card" style="background-color: '' @ color
         @ '';">'' @ [CHR 0x0A] @ ''            '')
      @ (''<div class="risk-label">'' @ label @ ''</div>'')
      @ ([CHR 0x0A] @ ''            <div class="risk-segment">Predicted Segment: ''
         @ segment_name @ ''</div>'' @ [CHR 0x0A] @ ''        </div>''
         @ [CHR 0x0A] @ ''        '')\<close>
    by (simp add: risk_card_def)
  show \<open>sublist (''<div class="risk-label">'' @ label @ ''</div>'')
      (risk_card color label segment_name)\<close>
    unfolding second by (rule sublist_appendI)
  have third: \<open>risk_card color label segment_name =
      ([CHR 0x0A] @ ''        <div class="risk-card" style="background-color: '' @ color
         @ '';">'' @ [CHR 0x0A] @ ''            <div class="risk-label">'' @ label @ ''</div>''
         @ [CHR 0x0A] @ ''            '')
      @ (''<div class="risk-segment">Predicted Segment: '' @ segment_name @ ''</div>'')
      @ ([CHR 0x0A] @ ''        </div>'' @ [CHR 0x0A] @ ''        '')\<close>
    by (simp add: risk_card_def)
  show \<open>sublist (''<div class="risk-segment">Predicted Segment: '' @ segment_name @ ''</div>'')
      (risk_card color label segment_name)\<close>
    unfolding third by (rule sublist_appendI)
qed

lemma segment_style_table:
  "segment_style v =
     (if v = PyInt 0 \<or> v = PyBool False \<or> v = PyFloat (Finite 0)
        then (''var(--low-risk)'', ''Low Risk Segment'')
      else if v = PyInt 1 \<or> v = PyBool True \<or> v = PyFloat (Finite 1)
        then (''var(--medium-risk)'', ''Medium Risk Segment'')
      else if v = PyInt 2 \<or> v = PyFloat (Finite 2)
        then (''var(--high-risk)'', ''High Risk Segment'')
      else (''var(--border-color)'', ''Prediction Error''))"
  by (cases v) (auto simp add: segment_style_def py_eq_int_def)

section \<open>The result card\<close>

text \<open>
  Claim C1, as amended. Whenever a 200 response is parsed to a non-empty dict, one card is
  rendered; the color in its style attribute and the label in its label element are those
  that \<open>segment_style\<close> assigns to the segment identifier alone (the value under
  \<^verbatim>\<open>risk_segment_id\<close>, or 99 when the key is missing), which is compared with Python's
  \<^verbatim>\<open>==\<close>: an identifier equal to 0 (0, False, 0.0) gives the low-risk green and "Low Risk
  Segment", one equal to 1 (1, True, 1.0) the medium-risk yellow and "Medium Risk
  Segment", one equal to 2 (2, 2.0) the high-risk red and "High Risk Segment", and every
  other identifier, a missing one included, gives the border color and "Prediction Error".
\<close>

theorem card_label_and_color_from_segment_id:
  assumes "net calls (API_URL, input_data f) = Inr r" and "status_code r = 200"
    and "body_json r = Inr (PyDict kvs)" and "kvs \<noteq> []"
  shows \<open>cards (displayed (predict_button fmt net f calls)) =
           [risk_card
              (fst (segment_style (case map_of kvs ''risk_segment_id'' of
                                     None \<Rightarrow> PyInt 99 | Some x \<Rightarrow> x)))
              (snd (segment_style (case map_of kvs ''risk_segment_id'' of
                                     None \<Rightarrow> PyInt 99 | Some x \<Rightarrow> x)))
              (py_format fmt (case map_of kvs ''risk_segment_name'' of
                                None \<Rightarrow> PyStr ''Unknown Segment'' | Some x \<Rightarrow> x))]
         \<and> list_all
              (sublist (''<div class="risk-card" style="background-color: ''
                        @ fst (segment_style (case map_of kvs ''risk_segment_id'' of
                                                None \<Rightarrow> PyInt 99 | Some x \<Rightarrow> x))
                        @ '';">''))
              (cards (displayed (predict_button fmt net f calls)))
         \<and> list_all
              (sublist (''<div class="risk-label">''
                        @ snd (segment_style (case map_of kvs ''risk_segment_id'' of
                                                None \<Rightarrow> PyInt 99 | Some x \<Rightarrow> x))
                        @ ''</div>''))
              (cards (displayed (predict_button fmt net f calls)))
         \<and> (\<forall>v. segment_style v =
                (if v = PyInt 0 \<or> v = PyBool False \<or> v = PyFloat (Finite 0)
                   then (''var(--low-risk)'', ''Low Risk Segment'')
                 else if v = PyInt 1 \<or> v = PyBool True \<or> v = PyFloat (Finite 1)
                   then (''var(--medium-risk)'', ''Medium Risk Segment'')
                 else if v = PyInt 2 \<or> v = PyFloat (Finite 2)
                   then (''var(--high-risk)'', ''High Risk Segment'')
                 else (''var(--border-color)'', ''Prediction Error'')))
         \<and> (map_of kvs ''risk_segment_id'' = None \<longrightarrow>
                list_all
                  (sublist ''<div class="risk-card" style="background-color: var(--border-color);">'')
                  (cards (displayed (predict_button fmt net f calls)))
                \<and> list_all (sublist ''<div class="risk-label">Prediction Error</div>'')
                     (cards (displayed (predict_button fmt net f calls))))\<close>
proof -
  have run: "get_prediction fmt net (input_data f) calls =
      \<lparr>returned = Inr (PyDict kvs), shown = [], sent = calls @ [(API_URL, input_data f)]\<rparr>"
    using assms(1-3) by (rule get_prediction_ok)
  have card: "cards (displayed (predict_button fmt net f calls)) =
      [risk_card
         (fst (segment_style (case map_of kvs ''risk_segment_id'' of
                                None \<Rightarrow> PyInt 99 | Some x \<Rightarrow> x)))
         (snd (segment_style (case map_of kvs ''risk_segment_id'' of
                                None \<Rightarrow> PyInt 99 | Some x \<Rightarrow> x)))
         (py_format fmt (case map_of kvs ''risk_segment_name'' of
                           None \<Rightarrow> PyStr ''Unknown Segment'' | Some x \<Rightarrow> x))]"
    by (simp add: predict_button_dict [OF run assms(4)] cards_simps)
  have color: \<open>list_all
      (sublist (''<div class="risk-card" style="background-color: ''
                @ fst (segment_style (case map_of kvs ''risk_segment_id'' of
                                        None \<Rightarrow> PyInt 99 | Some x \<Rightarrow> x))
                @ '';">''))
      (cards (displayed (predict_button fmt net f calls)))\<close>
    unfolding card using risk_card_shows(1) by simp
  have label: \<open>list_all
      (sublist (''<div class="risk-label">''
                @ snd (segment_style (case map_of kvs ''risk_segment_id'' of
                                        None \<Rightarrow> PyInt 99 | Some x \<Rightarrow> x))
                @ ''</div>''))
      (cards (displayed (predict_button fmt net f calls)))\<close>
    unfolding card using risk_card_shows(2) by simp
  have missing: \<open>map_of kvs ''risk_segment_id'' = None \<longrightarrow>
      list_all
        (sublist ''<div class="risk-card" style="background-color: var(--border-color);">'')
        (cards (displayed (predict_button fmt net f calls)))
      \<and> list_all (sublist ''<div class="risk-label">Prediction Error</div>'')
           (cards (displayed (predict_button fmt net f calls)))\<close>
  proof
    assume none: "map_of kvs ''risk_segment_id'' = None"
    show \<open>list_all
        (sublist ''<div class="risk-card" style="background-color: var(--border-color);">'')
        (cards (displayed (predict_button fmt net f calls)))
      \<and> list_all (sublist ''<div class="risk-label">Prediction Error</div>'')
           (cards (displayed (predict_button fmt net f calls)))\<close>
      using color label by (simp add: none segment_style_int)
  qed
  from card color label missing segment_style_table show ?thesis
    by blast
qed

theorem card_label_and_color_witness:
  \<open>replying 200 (Inr prime_borrowers) [] (API_URL, input_data default_form)
     = Inr \<lparr>status_code = 200, body_json = Inr prime_borrowers\<rparr>
   \<and> cards (displayed (predict_button sample_fmt (replying 200 (Inr prime_borrowers))
                        default_form []))
     = [risk_card ''var(--low-risk)'' ''Low Risk Segment'' ''Prime Borrowers'']
   \<and> list_all (sublist ''<div class="risk-card" style="background-color: var(--low-risk);">'')
        (cards (displayed (predict_button sample_fmt (replying 200 (Inr prime_borrowers))
                             default_form [])))
   \<and> list_all (sublist ''<div class="risk-label">Low Risk Segment</div>'')
        (cards (displayed (predict_button sample_fmt (replying 200 (Inr prime_borrowers))
                             default_form [])))\<close>
proof -
  have reply: "replying 200 (Inr prime_borrowers) [] (API_URL, input_data default_form)
      = Inr \<lparr>status_code = 200, body_json = Inr prime_borrowers\<rparr>"
    by (simp add: replying_def)
  have status: "status_code \<lparr>status_code = 200, body_json = Inr prime_borrowers\<rparr> = 200"
    by simp
  have body: "body_json \<lparr>status_code = 200, body_json = Inr prime_borrowers\<rparr> =
      Inr (PyDict [(''risk_segment_id'', PyInt 0),
                   (''risk_segment_name'', PyStr ''Prime Borrowers'')])"
    by (simp add: prime_borrowers_def)
  have nonempty: "[(''risk_segment_id'', PyInt 0),
                   (''risk_segment_name'', PyStr ''Prime Borrowers'')] \<noteq> []"
    by simp
  note inst = card_label_and_color_from_segment_id
          [where net = "replying 200 (Inr prime_borrowers)" and calls = "[]"
             and f = default_form and fmt = sample_fmt, OF reply status body nonempty]
  have style: "segment_style (case map_of [(''risk_segment_id'', PyInt 0),
                   (''risk_segment_name'', PyStr ''Prime Borrowers'')] ''risk_segment_id'' of
                 None \<Rightarrow> PyInt 99 | Some x \<Rightarrow> x) = (''var(--low-risk)'', ''Low Risk Segment'')"
    by (simp add: segment_style_int)
  have name: "py_format sample_fmt (case map_of [(''risk_segment_id'', PyInt 0),
                   (''risk_segment_name'', PyStr ''Prime Borrowers'')] ''risk_segment_name'' of
                 None \<Rightarrow> PyStr ''Unknown Segment'' | Some x \<Rightarrow> x) = ''Prime Borrowers''"
    by (simp add: py_format_def)
  from inst [unfolded style name fst_conv snd_conv append.simps] reply show ?thesis
    by blast
qed

text \<open>
  Claim C1 as stated fails on an identifier that is not the integer 1 and yet equal to it:
  for the body \<^verbatim>\<open>{"risk_segment_id": true, "risk_segment_name": "Near Prime"}\<close> the card
  shows "Medium Risk Segment", and "Prediction Error" appears nowhere in it.
\<close>

theorem boolean_identifier_counterexample:
  \<open>cards (displayed (predict_button sample_fmt (replying 200 (Inr boolean_identifier))
                       default_form []))
     = [risk_card ''var(--medium-risk)'' ''Medium Risk Segment'' ''Near Prime'']
   \<and> list_all (sublist ''<div class="risk-label">Medium Risk Segment</div>'')
        (cards (displayed (predict_button sample_fmt (replying 200 (Inr boolean_identifier))
                             default_form [])))
   \<and> \<not> list_ex (sublist ''Prediction Error'')
        (cards (displayed (predict_button sample_fmt (replying 200 (Inr boolean_identifier))
                             default_form [])))\<close>
  by code_simp

text \<open>
  Claim C9. For a 200 response parsed to a non-empty dict: when the key
  \<^verbatim>\<open>risk_segment_name\<close> is missing, the card rendered displays "Predicted Segment: Unknown
  Segment"; when the key \<^verbatim>\<open>risk_segment_id\<close> is missing, the identifier used is the default
  99 and the card rendered displays the label "Prediction Error" on the border color.
\<close>

theorem missing_keys_use_defaults:
  assumes "net calls (API_URL, input_data f) = Inr r" and "status_code r = 200"
    and "body_json r = Inr (PyDict kvs)" and "kvs \<noteq> []"
  shows \<open>(''risk_segment_name'' \<notin> fst ` set kvs \<longrightarrow>
            cards (displayed (predict_button fmt net f calls)) =
              [risk_card
                 (fst (segment_style (case map_of kvs ''risk_segment_id'' of
                                        None \<Rightarrow> PyInt 99 | Some x \<Rightarrow> x)))
                 (snd (segment_style (case map_of kvs ''risk_segment_id'' of
                                        None \<Rightarrow> PyInt 99 | Some x \<Rightarrow> x)))
                 ''Unknown Segment'']
            \<and> list_all
                 (sublist ''<div class="risk-segment">Predicted Segment: Unknown Segment</div>'')
                 (cards (displayed (predict_button fmt net f calls))))
         \<and> (''risk_segment_id'' \<notin> fst ` set kvs \<longrightarrow>
              py_get (PyDict kvs) ''risk_segment_id'' (PyInt 99) = Inr (PyInt 99)
              \<and> cards (displayed (predict_button fmt net f calls)) =
                  [risk_card ''var(--border-color)'' ''Prediction Error''
                     (py_format fmt (case map_of kvs ''risk_segment_name'' of
                                       None \<Rightarrow> PyStr ''Unknown Segment'' | Some x \<Rightarrow> x))]
              \<and> list_all (sublist ''<div class="risk-label">Prediction Error</div>'')
                   (cards (displayed (predict_button fmt net f calls)))
              \<and> list_all
                   (sublist ''<div class="risk-card" style="background-color: var(--border-color);">'')
                   (cards (displayed (predict_button fmt net f calls))))\<close>
proof -
  have run: "get_prediction fmt net (input_data f) calls =
      \<lparr>returned = Inr (PyDict kvs), shown = [], sent = calls @ [(API_URL, input_data f)]\<rparr>"
    using assms(1-3) by (rule get_prediction_ok)
  note card = predict_button_dict [OF run assms(4)]
  have no_name: "map_of kvs ''risk_segment_name'' = None"
    if "''risk_segment_name'' \<notin> fst ` set kvs"
    using that by (simp add: map_of_eq_None_iff)
  have no_id: "map_of kvs ''risk_segment_id'' = None"
    if "''risk_segment_id'' \<notin> fst ` set kvs"
    using that by (simp add: map_of_eq_None_iff)
  have name_card: "cards (displayed (predict_button fmt net f calls)) =
      [risk_card
         (fst (segment_style (case map_of kvs ''risk_segment_id'' of
                                None \<Rightarrow> PyInt 99 | Some x \<Rightarrow> x)))
         (snd (segment_style (case map_of kvs ''risk_segment_id'' of
                                None \<Rightarrow> PyInt 99 | Some x \<Rightarrow> x)))
         ''Unknown Segment'']"
    if "''risk_segment_name'' \<notin> fst ` set kvs"
    by (simp add: card cards_simps no_name [OF that] py_format_def)
  have name_shown: \<open>list_all
      (sublist ''<div class="risk-segment">Predicted Segment: Unknown Segment</div>'')
      (cards (displayed (predict_button fmt net f calls)))\<close>
    if "''risk_segment_name'' \<notin> fst ` set kvs"
    unfolding name_card [OF that]
    using risk_card_shows(3) [where segment_name = "''Unknown Segment''"] by simp
  have id_default: "py_get (PyDict kvs) ''risk_segment_id'' (PyInt 99) = Inr (PyInt 99)"
    if "''risk_segment_id'' \<notin> fst ` set kvs"
    by (simp add: py_get_def no_id [OF that])
  have id_card: "cards (displayed (predict_button fmt net f calls)) =
      [risk_card ''var(--border-color)'' ''Prediction Error''
         (py_format fmt (case map_of kvs ''risk_segment_name'' of
                           None \<Rightarrow> PyStr ''Unknown Segment'' | Some x \<Rightarrow> x))]"
    if "''risk_segment_id'' \<notin> fst ` set kvs"
    by (simp add: card cards_simps no_id [OF that] segment_style_int)
  have id_label: \<open>list_all (sublist ''<div class="risk-label">Prediction Error</div>'')
      (cards (displayed (predict_button fmt net f calls)))\<close>
    if "''risk_segment_id'' \<notin> fst ` set kvs"
    unfolding id_card [OF that]
    using risk_card_shows(2) [where label = "''Prediction Error''"] by simp
  have id_color: \<open>list_all
      (sublist ''<div class="risk-card" style="background-color: var(--border-color);">'')
      (cards (displayed (predict_button fmt net f calls)))\<close>
    if "''risk_segment_id'' \<notin> fst ` set kvs"
    unfolding id_card [OF that]
    using risk_card_shows(1) [where color = "''var(--border-color)''"] by simp
  from name_card name_shown id_default id_card id_label id_color show ?thesis
    by blast
qed

theorem missing_keys_witness:
  \<open>cards (displayed (predict_button sample_fmt
            (replying 200 (Inr (PyDict [(''note'', PyStr ''no fields'')]))) default_form []))
     = [risk_card ''var(--border-color)'' ''Prediction Error'' ''Unknown Segment'']
   \<and> list_all (sublist ''<div class="risk-segment">Predicted Segment: Unknown Segment</div>'')
        (cards (displayed (predict_button sample_fmt
            (replying 200 (Inr (PyDict [(''note'', PyStr ''no fields'')]))) default_form [])))
   \<and> list_all (sublist ''<div class="risk-label">Prediction Error</div>'')
        (cards (displayed (predict_button sample_fmt
            (replying 200 (Inr (PyDict [(''note'', PyStr ''no fields'')]))) default_form [])))\<close>
proof -
  have reply: "replying 200 (Inr (PyDict [(''note'', PyStr ''no fields'')])) []
        (API_URL, input_data default_form)
      = Inr \<lparr>status_code = 200, body_json = Inr (PyDict [(''note'', PyStr ''no fields'')])\<rparr>"
    by (simp add: replying_def)
  have status: "status_code
      \<lparr>status_code = 200, body_json = Inr (PyDict [(''note'', PyStr ''no fields'')])\<rparr> = 200"
    by simp
  have body: "body_json
      \<lparr>status_code = 200, body_json = Inr (PyDict [(''note'', PyStr ''no fields'')])\<rparr>
      = Inr (PyDict [(''note'', PyStr ''no fields'')])"
    by simp
  have nonempty: "[(''note'', PyStr ''no fields'')] \<noteq> []"
    by simp
  have no_name: "''risk_segment_name'' \<notin> fst ` set [(''note'', PyStr ''no fields'')]"
    by simp
  have no_id: "''risk_segment_id'' \<notin> fst ` set [(''note'', PyStr ''no fields'')]"
    by simp
  have name: "py_format sample_fmt
      (case map_of [(''note'', PyStr ''no fields'')] ''risk_segment_name'' of
         None \<Rightarrow> PyStr ''Unknown Segment'' | Some x \<Rightarrow> x) = ''Unknown Segment''"
    by (simp add: py_format_def)
  from missing_keys_use_defaults
         [where net = "replying 200 (Inr (PyDict [(''note'', PyStr ''no fields'')]))"
            and calls = "[]" and f = default_form and fmt = sample_fmt,
          OF reply status body nonempty, unfolded name]
    no_name no_id
  show ?thesis by blast
qed

text \<open>
  Claim C10. For a 200 response whose parsed body is falsy (among them the empty dict,
  None, 0 and the empty string), \<^verbatim>\<open>get_prediction\<close> returns that body and shows nothing,
  and the handler ends with no card, no message and no exception.
\<close>

theorem falsy_body_shows_nothing:
  assumes "net calls (API_URL, input_data f) = Inr r" and "status_code r = 200"
    and "body_json r = Inr v" and "\<not> truthy v"
  shows "returned (get_prediction fmt net (input_data f) calls) = Inr v
         \<and> shown (get_prediction fmt net (input_data f) calls) = []
         \<and> predict_button fmt net f calls =
             \<lparr>raised = None, displayed = [], requests = calls @ [(API_URL, input_data f)]\<rparr>
         \<and> \<not> truthy (PyDict []) \<and> \<not> truthy PyNone \<and> \<not> truthy (PyInt 0)
         \<and> \<not> truthy (PyStr [])"
proof -
  have run: "get_prediction fmt net (input_data f) calls =
      \<lparr>returned = Inr v, shown = [], sent = calls @ [(API_URL, input_data f)]\<rparr>"
    using assms(1-3) by (rule get_prediction_ok)
  show ?thesis
    by (simp add: run predict_button_none [OF run assms(4)] truthy_def)
qed

theorem falsy_body_witness:
  "\<not> truthy (PyDict [])
   \<and> predict_button sample_fmt (replying 200 (Inr (PyDict []))) default_form [] =
       \<lparr>raised = None, displayed = [],
        requests = [(API_URL, input_data default_form)]\<rparr>"
  using falsy_body_shows_nothing
          [where net = "replying 200 (Inr (PyDict []))" and calls = "[]" and f = default_form
             and r = "\<lparr>status_code = 200, body_json = Inr (PyDict [])\<rparr>"
             and v = "PyDict []" and fmt = sample_fmt]
  by (simp add: replying_def truthy_def)

section \<open>Failures of the call\<close>

lemma endpoint_named:
  "names_endpoint (''Please ensure your Project 2 FastAPI server is running at '' @ API_URL @ ''.'')"
  unfolding names_endpoint_def by (rule sublist_appendI)

lemma get_prediction_not_200:
  assumes "net calls (API_URL, data) = Inr r" and "status_code r \<noteq> 200"
  shows "returned (get_prediction fmt net data calls) = Inr PyNone
         \<and> error_messages (shown (get_prediction fmt net data calls)) \<noteq> []
         \<and> cards (shown (get_prediction fmt net data calls)) = []"
proof (cases "body_json r")
  case (Inl msg)
  show ?thesis
    by (simp add: get_prediction_undecodable [where net = net and calls = calls, OF assms(1) Inl] error_messages_simps cards_simps)
next
  case (Inr v)
  show ?thesis
  proof (cases "\<exists>kvs. v = PyDict kvs")
    case True
    then obtain kvs where "body_json r = Inr (PyDict kvs)" using Inr by blast
    then show ?thesis
      by (simp add: get_prediction_api_error [where net = net and calls = calls, OF assms] error_messages_simps cards_simps)
  next
    case False
    then have "\<forall>kvs. v \<noteq> PyDict kvs" by blast
    then show ?thesis
      by (simp add: get_prediction_not_dict [where net = net and calls = calls, OF assms Inr] error_messages_simps cards_simps)
  qed
qed

lemma predict_button_no_result:
  assumes "returned (get_prediction fmt net (input_data f) calls) = Inr PyNone"
  shows "predict_button fmt net f calls =
           \<lparr>raised = None, displayed = shown (get_prediction fmt net (input_data f) calls),
            requests = sent (get_prediction fmt net (input_data f) calls)\<rparr>"
  using assms by (simp add: predict_button_def Let_def truthy_def)

text \<open>
  Claim C5, as amended. An exception deriving from \<^verbatim>\<open>Exception\<close> that is raised by the POST
  and is not a connection error, and a 200 response whose body does not parse, make the
  client show the one error "An unexpected error occurred: " followed by the text of the
  failure, and return None. A 200 response whose body parses is no failure to the client,
  whatever the shape of the body: the body is returned as it is and nothing is shown.
\<close>

theorem unexpected_failure_reported:
  "(net calls (API_URL, data) = Inl e \<and> is_Exception e \<and> \<not> is_ConnectionError e \<longrightarrow>
      returned (get_prediction fmt net data calls) = Inr PyNone
      \<and> shown (get_prediction fmt net data calls) =
           [St_error (''An unexpected error occurred: '' @ exc_str e)])
   \<and> (net calls (API_URL, data) = Inr r \<and> status_code r = 200 \<and> body_json r = Inl msg \<longrightarrow>
      returned (get_prediction fmt net data calls) = Inr PyNone
      \<and> shown (get_prediction fmt net data calls) =
           [St_error (''An unexpected error occurred: '' @ msg)])
   \<and> (net calls (API_URL, data) = Inr r \<and> status_code r = 200 \<and> body_json r = Inr v \<longrightarrow>
      returned (get_prediction fmt net data calls) = Inr v
      \<and> shown (get_prediction fmt net data calls) = [])"
proof (intro conjI impI)
  assume a: "net calls (API_URL, data) = Inl e \<and> is_Exception e \<and> \<not> is_ConnectionError e"
  then have run: "get_prediction fmt net data calls =
      \<lparr>returned = Inr PyNone,
       shown = [St_error (''An unexpected error occurred: '' @ exc_str e)],
       sent = calls @ [(API_URL, data)]\<rparr>"
    by (simp add: get_prediction_raise [where net = net and calls = calls and e = e])
  show "returned (get_prediction fmt net data calls) = Inr PyNone"
    by (simp add: run)
  show "shown (get_prediction fmt net data calls) =
      [St_error (''An unexpected error occurred: '' @ exc_str e)]"
    by (simp add: run)
next
  assume b: "net calls (API_URL, data) = Inr r \<and> status_code r = 200 \<and> body_json r = Inl msg"
  then have run: "get_prediction fmt net data calls =
      \<lparr>returned = Inr PyNone,
       shown = [St_error (''An unexpected error occurred: '' @ msg)],
       sent = calls @ [(API_URL, data)]\<rparr>"
    by (simp add: get_prediction_undecodable [where net = net and calls = calls and r = r])
  show "returned (get_prediction fmt net data calls) = Inr PyNone"
    by (simp add: run)
  show "shown (get_prediction fmt net data calls) =
      [St_error (''An unexpected error occurred: '' @ msg)]"
    by (simp add: run)
next
  assume c: "net calls (API_URL, data) = Inr r \<and> status_code r = 200 \<and> body_json r = Inr v"
  then have run: "get_prediction fmt net data calls =
      \<lparr>returned = Inr v, shown = [], sent = calls @ [(API_URL, data)]\<rparr>"
    by (simp add: get_prediction_ok [where net = net and calls = calls and r = r])
  show "returned (get_prediction fmt net data calls) = Inr v"
    by (simp add: run)
  show "shown (get_prediction fmt net data calls) = []"
    by (simp add: run)
qed

theorem unexpected_failure_witness:
  "is_Exception (PyExc OtherException ''read timed out'')
   \<and> \<not> is_ConnectionError (PyExc OtherException ''read timed out'')
   \<and> shown (get_prediction sample_fmt (raising OtherException ''read timed out'')
              (input_data default_form) [])
       = [St_error ''An unexpected error occurred: read timed out'']
   \<and> returned (get_prediction sample_fmt (replying 200 (Inl decode_failure))
                 (input_data default_form) []) = Inr PyNone
   \<and> shown (get_prediction sample_fmt (replying 200 (Inl decode_failure))
              (input_data default_form) [])
       = [St_error ''An unexpected error occurred: Expecting value: line 1 column 1 (char 0)'']
   \<and> returned (get_prediction sample_fmt (replying 200 (Inr list_body))
                 (input_data default_form) []) = Inr list_body"
  using unexpected_failure_reported
          [where net = "raising OtherException ''read timed out''" and calls = "[]"
             and data = "input_data default_form" and fmt = sample_fmt
             and e = "PyExc OtherException ''read timed out''"]
        unexpected_failure_reported
          [where net = "replying 200 (Inl decode_failure)" and calls = "[]"
             and data = "input_data default_form" and fmt = sample_fmt
             and r = "\<lparr>status_code = 200, body_json = Inl decode_failure\<rparr>"
             and msg = decode_failure]
        unexpected_failure_reported
          [where net = "replying 200 (Inr list_body)" and calls = "[]"
             and data = "input_data default_form" and fmt = sample_fmt
             and r = "\<lparr>status_code = 200, body_json = Inr list_body\<rparr>"
             and v = list_body]
  by (simp add: raising_def replying_def is_Exception_def is_ConnectionError_def
        decode_failure_def)

text \<open>
  Claim C5 as stated fails on a malformed body that parses and on an exception outside
  \<^verbatim>\<open>Exception\<close>: the 200 body \<^verbatim>\<open>[1, 2]\<close> is returned with no message at all, and the
  handler then fails on it with an AttributeError and displays nothing; a SystemExit
  raised during the POST is not turned into a returned None.
\<close>

theorem parsed_list_body_counterexample:
  "returned (get_prediction sample_fmt (replying 200 (Inr list_body))
               (input_data default_form) []) = Inr list_body
   \<and> shown (get_prediction sample_fmt (replying 200 (Inr list_body))
              (input_data default_form) []) = []
   \<and> raised (predict_button sample_fmt (replying 200 (Inr list_body)) default_form [])
       = Some (PyExc AttributeError
                 ([CHR 0x27] @ ''list'' @ [CHR 0x27] @ '' object has no attribute ''
                  @ [CHR 0x27] @ ''get'' @ [CHR 0x27]))
   \<and> displayed (predict_button sample_fmt (replying 200 (Inr list_body)) default_form []) = []
   \<and> returned (get_prediction sample_fmt (raising SystemExiting ''1'')
                 (input_data default_form) []) \<noteq> Inr PyNone"
  by code_simp

text \<open>
  Claim C3, as amended. For every response with a status other than 200 whose body parses
  to a dict, the client shows the error "API Error (status): detail", where the detail is
  the value under \<^verbatim>\<open>detail\<close> or "Unknown API Error" when that key is missing, followed by
  a warning; and for every response with a status other than 200, whatever its body, an
  error is shown, None is returned, and the handler renders no card and raises nothing.
\<close>

theorem api_error_detail_reported:
  assumes "net calls (API_URL, input_data f) = Inr r" and "status_code r \<noteq> 200"
  shows "(\<forall>kvs. body_json r = Inr (PyDict kvs) \<longrightarrow>
            shown (get_prediction fmt net (input_data f) calls) =
              [St_error (''API Error ('' @ str_int (status_code r) @ ''): ''
                 @ py_format fmt (case map_of kvs ''detail'' of
                                    None \<Rightarrow> PyStr ''Unknown API Error'' | Some d \<Rightarrow> d)),
               St_warning ''Ensure your Project 2 FastAPI server is running in a separate terminal.''])
         \<and> (\<forall>kvs d. body_json r = Inr (PyDict kvs) \<and> map_of kvs ''detail'' = Some (PyStr d) \<longrightarrow>
              error_messages (shown (get_prediction fmt net (input_data f) calls)) =
                [''API Error ('' @ str_int (status_code r) @ ''): '' @ d])
         \<and> (\<forall>kvs. body_json r = Inr (PyDict kvs) \<and> map_of kvs ''detail'' = None \<longrightarrow>
              error_messages (shown (get_prediction fmt net (input_data f) calls)) =
                [''API Error ('' @ str_int (status_code r) @ ''): Unknown API Error''])
         \<and> returned (get_prediction fmt net (input_data f) calls) = Inr PyNone
         \<and> error_messages (shown (get_prediction fmt net (input_data f) calls)) \<noteq> []
         \<and> raised (predict_button fmt net f calls) = None
         \<and> cards (displayed (predict_button fmt net f calls)) = []"
proof -
  note general = get_prediction_not_200 [where net = net and calls = calls and fmt = fmt, OF assms]
  have none: "returned (get_prediction fmt net (input_data f) calls) = Inr PyNone"
    using general by blast
  have handler: "raised (predict_button fmt net f calls) = None
      \<and> cards (displayed (predict_button fmt net f calls)) = []"
    using general by (simp add: predict_button_no_result [OF none])
  have dict: "\<forall>kvs. body_json r = Inr (PyDict kvs) \<longrightarrow>
      shown (get_prediction fmt net (input_data f) calls) =
        [St_error (''API Error ('' @ str_int (status_code r) @ ''): ''
           @ py_format fmt (case map_of kvs ''detail'' of
                              None \<Rightarrow> PyStr ''Unknown API Error'' | Some d \<Rightarrow> d)),
         St_warning ''Ensure your Project 2 FastAPI server is running in a separate terminal.'']"
    by (simp add: get_prediction_api_error [where net = net and calls = calls, OF assms])
  have given: "\<forall>kvs d. body_json r = Inr (PyDict kvs) \<and> map_of kvs ''detail'' = Some (PyStr d) \<longrightarrow>
      error_messages (shown (get_prediction fmt net (input_data f) calls)) =
        [''API Error ('' @ str_int (status_code r) @ ''): '' @ d]"
    by (simp add: get_prediction_api_error [where net = net and calls = calls, OF assms] error_messages_simps py_format_def)
  have absent: "\<forall>kvs. body_json r = Inr (PyDict kvs) \<and> map_of kvs ''detail'' = None \<longrightarrow>
      error_messages (shown (get_prediction fmt net (input_data f) calls)) =
        [''API Error ('' @ str_int (status_code r) @ ''): Unknown API Error'']"
    by (simp add: get_prediction_api_error [where net = net and calls = calls, OF assms] error_messages_simps py_format_def)
  from dict given absent general handler show ?thesis
    by blast
qed

theorem api_error_detail_witness:
  "error_messages (shown (get_prediction sample_fmt
      (replying 422 (Inr (PyDict [(''detail'', PyStr ''Age must be positive'')])))
      (input_data default_form) []))
     = [''API Error (422): Age must be positive'']
   \<and> cards (displayed (predict_button sample_fmt
      (replying 422 (Inr (PyDict [(''detail'', PyStr ''Age must be positive'')])))
      default_form [])) = []"
  using api_error_detail_reported
          [where net = "replying 422 (Inr (PyDict [(''detail'', PyStr ''Age must be positive'')]))"
             and calls = "[]" and f = default_form and fmt = sample_fmt
             and r = "\<lparr>status_code = 422,
                        body_json = Inr (PyDict [(''detail'', PyStr ''Age must be positive'')])\<rparr>"]
  by (simp add: replying_def str_int_def str_nat.simps digit_char_def error_messages_simps
        py_format_def)

text \<open>
  Claim C3 as stated fails on a body that does not parse: a 500 response whose body is not
  JSON carries no detail field, yet the message shown is the one of the generic handler
  and "Unknown API Error" appears nowhere.
\<close>

theorem non_json_error_body_counterexample:
  "error_messages (shown (get_prediction sample_fmt (replying 500 (Inl decode_failure))
                            (input_data default_form) []))
     = [''An unexpected error occurred: Expecting value: line 1 column 1 (char 0)'']
   \<and> \<not> list_ex (sublist ''Unknown API Error'')
         (error_messages (shown (get_prediction sample_fmt (replying 500 (Inl decode_failure))
                                   (input_data default_form) [])))"
proof -
  have "get_prediction sample_fmt (replying 500 (Inl decode_failure)) (input_data default_form) []
      = \<lparr>returned = Inr PyNone,
         shown = [St_error (''An unexpected error occurred: '' @ decode_failure)],
         sent = [] @ [(API_URL, input_data default_form)]\<rparr>"
    by (rule get_prediction_undecodable [where r = "\<lparr>status_code = 500, body_json = Inl decode_failure\<rparr>"])
       (simp_all add: replying_def)
  then show ?thesis
    by (simp add: decode_failure_def error_messages_simps sublist_code)
qed

text \<open>
  Claim C4, as amended. For every connection error, the client returns None and shows
  exactly two messages: the error "Connection Error: Could not connect to the Prediction
  API.", which differs from every message of the other two failure paths, and a warning
  that names the configured endpoint; the handler renders no card and raises nothing.
\<close>

theorem connection_error_reported:
  assumes "net calls (API_URL, input_data f) = Inl e" and "is_ConnectionError e"
  shows "returned (get_prediction fmt net (input_data f) calls) = Inr PyNone
         \<and> shown (get_prediction fmt net (input_data f) calls) =
             [St_error ''Connection Error: Could not connect to the Prediction API.'',
              St_warning (''Please ensure your Project 2 FastAPI server is running at ''
                          @ API_URL @ ''.'')]
         \<and> list_all names_endpoint
             (warning_messages (shown (get_prediction fmt net (input_data f) calls)))
         \<and> (\<forall>s. ''Connection Error: Could not connect to the Prediction API.''
                  \<noteq> ''API Error ('' @ s)
         \<and> (\<forall>s. ''Connection Error: Could not connect to the Prediction API.''
                  \<noteq> ''An unexpected error occurred: '' @ s)
         \<and> raised (predict_button fmt net f calls) = None
         \<and> cards (displayed (predict_button fmt net f calls)) = []"
proof -
  have run: "get_prediction fmt net (input_data f) calls =
      \<lparr>returned = Inr PyNone,
       shown = [St_error ''Connection Error: Could not connect to the Prediction API.'',
                St_warning (''Please ensure your Project 2 FastAPI server is running at ''
                            @ API_URL @ ''.'')],
       sent = calls @ [(API_URL, input_data f)]\<rparr>"
    using assms(2) by (simp add: get_prediction_raise [where net = net and calls = calls, OF assms(1)])
  have none: "returned (get_prediction fmt net (input_data f) calls) = Inr PyNone"
    by (simp add: run)
  have named: "list_all names_endpoint
      (warning_messages (shown (get_prediction fmt net (input_data f) calls)))"
    using endpoint_named by (simp add: run warning_messages_def)
  have handler: "raised (predict_button fmt net f calls) = None
      \<and> cards (displayed (predict_button fmt net f calls)) = []"
    by (simp add: predict_button_no_result [OF none] run cards_simps)
  from none named handler show ?thesis
    by (simp add: run)
qed

theorem connection_error_witness:
  "is_ConnectionError (PyExc ConnectionError ''refused'')
   \<and> shown (get_prediction sample_fmt (raising ConnectionError ''refused'')
              (input_data default_form) []) =
       [St_error ''Connection Error: Could not connect to the Prediction API.'',
        St_warning ''Please ensure your Project 2 FastAPI server is running at http://127.0.0.1:8000/predict_segment/.'']
   \<and> cards (displayed (predict_button sample_fmt (raising ConnectionError ''refused'')
                        default_form [])) = []"
  using connection_error_reported
          [where net = "raising ConnectionError ''refused''" and calls = "[]"
             and f = default_form and fmt = sample_fmt
             and e = "PyExc ConnectionError ''refused''"]
  by (simp add: raising_def is_ConnectionError_def API_URL_def)

text \<open>
  Claim C4 as stated fails on the wording of the error message: on a connection error no
  error message shown names the endpoint; the endpoint is named by the warning only.
\<close>

theorem connection_error_message_counterexample:
  "\<not> list_ex names_endpoint
       (error_messages (shown (get_prediction sample_fmt (raising ConnectionError ''refused'')
                                 (input_data default_form) [])))"
  by (simp add: get_prediction_raise [of "raising ConnectionError ''refused''"]
        raising_def is_ConnectionError_def error_messages_simps names_endpoint_def
        API_URL_def sublist_code)




section \<open>The payload\<close>

text \<open>
  Claim C2. For every valid applicant input the payload has exactly the nine keys Age,
  Duration, Credit_amount, Job, Sex, Housing, Saving_accounts, Checking_account, Purpose,
  each once; the first four carry the integers of the form, the other five carry strings
  taken from the option lists of their select boxes; and this payload is what the predict
  action posts to the endpoint.
\<close>

theorem payload_keys_and_types:
  assumes "valid_input f"
  shows "map fst (input_data f) =
           [''Age'', ''Duration'', ''Credit_amount'', ''Job'', ''Sex'', ''Housing'',
            ''Saving_accounts'', ''Checking_account'', ''Purpose'']
         \<and> distinct (map fst (input_data f))
         \<and> map_of (input_data f) ''Age'' = Some (PyInt (age f))
         \<and> map_of (input_data f) ''Duration'' = Some (PyInt (duration f))
         \<and> map_of (input_data f) ''Credit_amount'' = Some (PyInt (credit_amount f))
         \<and> map_of (input_data f) ''Job'' = Some (PyInt (job_index f))
         \<and> map_of (input_data f) ''Sex'' = Some (PyStr (sex f))
         \<and> sex f \<in> set SEX_OPTIONS
         \<and> map_of (input_data f) ''Housing'' = Some (PyStr (housing f))
         \<and> housing f \<in> set HOUSING_OPTIONS
         \<and> map_of (input_data f) ''Saving_accounts'' = Some (PyStr (saving_accounts f))
         \<and> saving_accounts f \<in> set SAVING_OPTIONS
         \<and> map_of (input_data f) ''Checking_account'' = Some (PyStr (checking_account f))
         \<and> checking_account f \<in> set CHECKING_OPTIONS
         \<and> map_of (input_data f) ''Purpose'' = Some (PyStr (purpose f))
         \<and> purpose f \<in> set PURPOSE_OPTIONS
         \<and> requests (predict_button fmt net f calls) = calls @ [(API_URL, input_data f)]"
proof -
  have keys: "map fst (input_data f) =
      [''Age'', ''Duration'', ''Credit_amount'', ''Job'', ''Sex'', ''Housing'',
       ''Saving_accounts'', ''Checking_account'', ''Purpose'']"
    by (simp add: input_data_def)
  have dist: "distinct (map fst (input_data f))"
    unfolding keys by simp
  have ints: "map_of (input_data f) ''Age'' = Some (PyInt (age f))"
    "map_of (input_data f) ''Duration'' = Some (PyInt (duration f))"
    "map_of (input_data f) ''Credit_amount'' = Some (PyInt (credit_amount f))"
    "map_of (input_data f) ''Job'' = Some (PyInt (job_index f))"
    by (simp_all add: input_data_def)
  have strs: "map_of (input_data f) ''Sex'' = Some (PyStr (sex f))"
    "map_of (input_data f) ''Housing'' = Some (PyStr (housing f))"
    "map_of (input_data f) ''Saving_accounts'' = Some (PyStr (saving_accounts f))"
    "map_of (input_data f) ''Checking_account'' = Some (PyStr (checking_account f))"
    "map_of (input_data f) ''Purpose'' = Some (PyStr (purpose f))"
    by (simp_all add: input_data_def)
  have opts: "sex f \<in> set SEX_OPTIONS" "housing f \<in> set HOUSING_OPTIONS"
    "saving_accounts f \<in> set SAVING_OPTIONS" "checking_account f \<in> set CHECKING_OPTIONS"
    "purpose f \<in> set PURPOSE_OPTIONS"
    using assms by (simp_all add: valid_input_def)
  show ?thesis
    using keys dist ints strs opts predict_button_requests [of fmt net f calls]
    by (simp only: simp_thms)
qed

theorem payload_keys_and_types_witness:
  "valid_input default_form
   \<and> input_data default_form =
       [(''Age'', PyInt 35), (''Duration'', PyInt 24), (''Credit_amount'', PyInt 6500),
        (''Job'', PyInt 0), (''Sex'', PyStr ''male''), (''Housing'', PyStr ''own''),
        (''Saving_accounts'', PyStr ''little''), (''Checking_account'', PyStr ''moderate''),
        (''Purpose'', PyStr ''car'')]
   \<and> map fst (input_data default_form) =
       [''Age'', ''Duration'', ''Credit_amount'', ''Job'', ''Sex'', ''Housing'',
        ''Saving_accounts'', ''Checking_account'', ''Purpose'']"
proof -
  have valid: "valid_input default_form"
    by (simp add: valid_input_def default_form_def age_accepted_def
          credit_amount_accepted_def duration_accepted_def SEX_OPTIONS_def JOB_OPTIONS_def
          HOUSING_OPTIONS_def SAVING_OPTIONS_def CHECKING_OPTIONS_def PURPOSE_OPTIONS_def)
  have "input_data default_form =
       [(''Age'', PyInt 35), (''Duration'', PyInt 24), (''Credit_amount'', PyInt 6500),
        (''Job'', PyInt 0), (''Sex'', PyStr ''male''), (''Housing'', PyStr ''own''),
        (''Saving_accounts'', PyStr ''little''), (''Checking_account'', PyStr ''moderate''),
        (''Purpose'', PyStr ''car'')]"
    by (simp add: input_data_def default_form_def)
  then show ?thesis
    using valid payload_keys_and_types [OF valid, of sample_fmt "replying 200 (Inr PyNone)" "[]"]
    by simp
qed

text \<open>
  Claim C7. The age input accepts its two bounds, 18 and 100, and every accepted age is
  the integer under the key Age of the payload that is posted, unchanged.
\<close>

theorem age_bounds_forwarded:
  "age_accepted 18 \<and> age_accepted 100
   \<and> (age_accepted (age f) \<longrightarrow>
        map_of (input_data f) ''Age'' = Some (PyInt (age f))
        \<and> requests (predict_button fmt net f calls) = calls @ [(API_URL, input_data f)])"
  using predict_button_requests [of fmt net f calls]
  by (simp add: age_accepted_def input_data_def)

theorem age_bounds_forwarded_witness:
  "age_accepted (age youngest_form) \<and> age_accepted (age oldest_form)
   \<and> map_of (input_data youngest_form) ''Age'' = Some (PyInt 18)
   \<and> map_of (input_data oldest_form) ''Age'' = Some (PyInt 100)"
  using age_bounds_forwarded [of youngest_form sample_fmt "replying 200 (Inr PyNone)" "[]"]
    age_bounds_forwarded [of oldest_form sample_fmt "replying 200 (Inr PyNone)" "[]"]
  by (simp add: youngest_form_def oldest_form_def default_form_def age_accepted_def)

text \<open>
  Claim C8. Whatever the transport does, a trigger makes exactly one call to the endpoint;
  a second trigger with the same field values makes exactly one more, with the same
  payload, so nothing is retried and nothing is answered from a cache. A run of the script
  without the trigger makes no call.
\<close>

theorem two_triggers_two_identical_requests:
  "requests (script fmt net f True calls) = calls @ [(API_URL, input_data f)]
   \<and> requests (script fmt net f True (requests (script fmt net f True calls)))
       = calls @ [(API_URL, input_data f), (API_URL, input_data f)]
   \<and> requests (script fmt net f False calls) = calls"
  by (simp add: script_def predict_button_requests)

theorem two_triggers_witness:
  "requests (script sample_fmt (raising ConnectionError ''refused'') default_form True [])
     = [(API_URL, input_data default_form)]
   \<and> requests (script sample_fmt (raising ConnectionError ''refused'') default_form True
        (requests (script sample_fmt (raising ConnectionError ''refused'') default_form True [])))
     = [(API_URL, input_data default_form), (API_URL, input_data default_form)]"
  using two_triggers_two_identical_requests
          [of sample_fmt "raising ConnectionError ''refused''" default_form "[]"]
  unfolding append_Nil by blast

end
